theory Spec2Isabelle
  imports Complex_Main
begin

section \<open>Values: what a parameter of type \<open>any\<close> can hold\<close>

text \<open>
  Every node, field and context of \<^verbatim>\<open>decisionTree.ts\<close> is typed \<open>any\<close>, and the
  constructors' declared types (\<open>phone: string\<close>, \<open>iterations: number\<close>, ...) are not
  checked when the program runs. The model therefore keeps every such value as a \<open>json\<close>:
  the values of JSON text, and \<open>undefined\<close>, which a missing property reads as and which
  \<open>toJSON\<close> itself writes (line 79). An object is the list of its own properties, each
  key once (a read takes the first entry of a key).
  A number is a rational: JSON text denotes only finite decimal numbers; the rounding of
  IEEE doubles, \<open>NaN\<close> and the infinities are outside the model.
\<close>

datatype json =
    JUndefined
  | JNull
  | JBool bool
  | JNum rat
  | JStr string
  | JArr "json list"
  | JObj "(string \<times> json) list"

text \<open>\<open>Boolean(v)\<close>, \<open>!v\<close> and the test of \<open>if (v)\<close> and \<open>v ? a : b\<close>.\<close>

fun truthy :: "json \<Rightarrow> bool" where
  "truthy JUndefined = False"
| "truthy JNull = False"
| "truthy (JBool b) = b"
| "truthy (JNum r) = (r \<noteq> 0)"
| "truthy (JStr s) = (s \<noteq> [])"
| "truthy (JArr xs) = True"
| "truthy (JObj kvs) = True"

text \<open>
  What the program throws. \<open>Error msg\<close> is the source's \<open>new Error(msg)\<close>; \<open>TypeError\<close>
  is raised by the language itself: a property read on \<open>undefined\<close> or \<open>null\<close>, a call of
  something that is not a function, the conversion to a string of a value that has
  none. The others are what an evaluated expression can raise.
\<close>

datatype jserror =
    Error string
  | TypeError
  | SyntaxError
  | ReferenceError
  | Thrown json

text \<open>
  Reading a property, \<open>v.k\<close>, for the names the source reads (\<open>type\<close>, \<open>params\<close>,
  \<open>phone\<close>, \<open>sender\<close>, \<open>receiver\<close>, \<open>expression\<close>, \<open>iterations\<close>, \<open>trueAction\<close>,
  \<open>falseAction\<close>, \<open>action\<close>, \<open>actions\<close>): none of them is inherited from a prototype, so
  the read gives the own property or \<open>undefined\<close>, and raises on \<open>undefined\<close> and \<open>null\<close>.
\<close>

fun get_prop :: "json \<Rightarrow> string \<Rightarrow> jserror + json" where
  "get_prop JUndefined k = Inl TypeError"
| "get_prop JNull k = Inl TypeError"
| "get_prop (JObj kvs) k = Inr (case map_of kvs k of Some v \<Rightarrow> v | None \<Rightarrow> JUndefined)"
| "get_prop v k = Inr JUndefined"

text \<open>Sequencing of computations that may throw: the first error ends the computation.\<close>

definition bindE :: "'e + 'a \<Rightarrow> ('a \<Rightarrow> 'e + 'b) \<Rightarrow> 'e + 'b" where
  "bindE m f = (case m of Inl e \<Rightarrow> Inl e | Inr x \<Rightarrow> f x)"

lemma bindE_Inl [simp]: "bindE (Inl e) f = Inl e"
  by (simp add: bindE_def)

lemma bindE_Inr [simp]: "bindE (Inr x) f = f x"
  by (simp add: bindE_def)

fun mapE :: "('a \<Rightarrow> 'e + 'b) \<Rightarrow> 'a list \<Rightarrow> 'e + 'b list" where
  "mapE f [] = Inr []"
| "mapE f (x # xs) = bindE (f x) (\<lambda>y. bindE (mapE f xs) (\<lambda>ys. Inr (y # ys)))"

lemma mapE_cong [fundef_cong]:
  "xs = ys \<Longrightarrow> (\<And>x. x \<in> set ys \<Longrightarrow> f x = g x) \<Longrightarrow> mapE f xs = mapE g ys"
  by (induction ys arbitrary: xs) auto

section \<open>The console and the state of a run\<close>

text \<open>
  The actions are stubs that log (line 28): their side effects are the lines written to
  the console. An event is one call of \<open>console.log\<close> or \<open>console.error\<close>, kept with the
  values its line is made of.
\<close>

datatype event =
    SmsLog json
    \<comment> \<open>line 33: \<open>SendSmsAction: Sending SMS to ${phone}\<close>\<close>
  | EmailLog json json
    \<comment> \<open>line 46: \<open>SendEmailAction: Sending email from ${sender} to ${receiver}\<close>\<close>
  | EvaluationErrorLog jserror
    \<comment> \<open>line 65: \<open>console.error("Error evaluating condition:", err)\<close>\<close>
  | ConditionLog json bool
    \<comment> \<open>line 67: \<open>ConditionAction: Expression "${expression}" evaluated to ${result}\<close>\<close>
  | LoopLog json
    \<comment> \<open>line 94: \<open>LoopAction: Starting loop for ${iterations} iterations.\<close>\<close>
  | IterationLog nat
    \<comment> \<open>line 96: \<open>LoopAction: Iteration ${i + 1}\<close>\<close>
  | SequenceLog nat
    \<comment> \<open>line 115: \<open>SequenceAction: Executing ${actions.length} actions in sequence.\<close>\<close>
  | ProcessingErrorLog jserror
    \<comment> \<open>line 137: \<open>console.error("Error processing decision tree:", err)\<close>\<close>
  | OtherEvent string
    \<comment> \<open>an effect of an action that is not one of the five classes of the file\<close>

text \<open>
  The state a run works on: the console so far, and \<open>world\<close>, everything else an
  evaluated expression can read or change (the context object's contents, the random
  number generator of \<open>Math.random()\<close> in \<open>optionalMailsTree\<close>, globals).
\<close>

record 'w state =
  console :: "event list"
  world :: 'w

definition emit :: "event \<Rightarrow> 'w state \<Rightarrow> 'w state" where
  "emit ev s = s\<lparr>console := console s @ [ev]\<rparr>"

text \<open>How a call of a \<open>void\<close> method ends: it returns, or it throws.\<close>

datatype completion = Returned | Threw jserror

type_synonym 'w run = "'w state \<Rightarrow> completion \<times> 'w state"

section \<open>The parts of JavaScript the source calls\<close>

text \<open>
  Three operations of the language stand behind the source's text, are not code of the
  repository and are not written out here. They are parameters of the model, all total.
  \<^item> \<open>newFunction body context w\<close> is \<open>new Function("context", body)(context)\<close>:
    compiling the text \<open>body\<close> and running it on the context, which gives a value or
    throws (a syntax error, a reference error, anything the code throws), and may change
    the world.
  \<^item> \<open>numberToString r\<close> is the decimal text of a number.
  \<^item> \<open>stringToNumber s\<close> is the number a string reads as; \<open>None\<close> is \<open>NaN\<close>.

  The model takes the run of an expression to end, with a value or an error, and the
  call stack to be deep enough for the tree.
\<close>

record 'w runtime =
  newFunction :: "string \<Rightarrow> json \<Rightarrow> 'w \<Rightarrow> (jserror + json) \<times> 'w"
  numberToString :: "rat \<Rightarrow> string"
  stringToNumber :: "string \<Rightarrow> rat option"

text \<open>
  The conversion of a value to a string, which a template literal (lines 33, 46, 62, 67,
  94), a property key (line 19) and a string concatenation (line 21) apply. An array is
  the texts of its elements joined by commas, \<open>undefined\<close> and \<open>null\<close> elements giving
  the empty text. An object made from JSON text has no method of its own: it converts
  by the inherited \<open>toString\<close> to \<open>[object Object]\<close>, unless it has an own property named
  \<open>toString\<close>, which hides the inherited method and is not a function; then the object
  has no string conversion and the language raises a \<open>TypeError\<close>.
\<close>

fun join :: "string \<Rightarrow> string list \<Rightarrow> string" where
  "join sep [] = []"
| "join sep [x] = x"
| "join sep (x # y # ys) = x @ sep @ join sep (y # ys)"

fun toString :: "'w runtime \<Rightarrow> json \<Rightarrow> jserror + string" where
  "toString rt JUndefined = Inr ''undefined''"
| "toString rt JNull = Inr ''null''"
| "toString rt (JBool b) = Inr (if b then ''true'' else ''false'')"
| "toString rt (JNum r) = Inr (numberToString rt r)"
| "toString rt (JStr s) = Inr s"
| "toString rt (JArr xs) =
     bindE (mapE (\<lambda>x. case x of JUndefined \<Rightarrow> Inr [] | JNull \<Rightarrow> Inr [] | _ \<Rightarrow> toString rt x) xs)
       (\<lambda>texts. Inr (join '','' texts))"
| "toString rt (JObj kvs) =
     (case map_of kvs ''toString'' of
        Some v \<Rightarrow> Inl TypeError
      | None \<Rightarrow> Inr ''[object Object]'')"

text \<open>
  The conversion of a value to a number (\<open>None\<close> is \<open>NaN\<close>), which the comparison of line
  95 applies: an array or an object converts to its string first, and raises where that
  raises.
\<close>

definition toNumber :: "'w runtime \<Rightarrow> json \<Rightarrow> jserror + rat option" where
  "toNumber rt v =
     (case v of
        JNum r \<Rightarrow> Inr (Some r)
      | JUndefined \<Rightarrow> Inr None
      | JNull \<Rightarrow> Inr (Some 0)
      | JBool b \<Rightarrow> Inr (Some (if b then 1 else 0))
      | JStr s \<Rightarrow> Inr (stringToNumber rt s)
      | _ \<Rightarrow> bindE (toString rt v) (\<lambda>s. Inr (stringToNumber rt s)))"

text \<open>\<open>i < v\<close> for a counter \<open>i\<close> (line 95): false when \<open>v\<close> converts to \<open>NaN\<close>.\<close>

definition less_counter :: "'w runtime \<Rightarrow> nat \<Rightarrow> json \<Rightarrow> jserror + bool" where
  "less_counter rt i v =
     bindE (toNumber rt v) (\<lambda>n. Inr (case n of None \<Rightarrow> False | Some r \<Rightarrow> of_nat i < r))"

text \<open>
  Lines 62 and 63 without the \<open>Boolean\<close>: the template literal makes the text of the
  function from the expression, \<open>new Function\<close> compiles it and the call runs it on the
  context. Each of the three can throw.
\<close>

definition evalFunction :: "'w runtime \<Rightarrow> json \<Rightarrow> json \<Rightarrow> 'w \<Rightarrow> (jserror + json) \<times> 'w" where
  "evalFunction rt expression context w =
     (case toString rt expression of
        Inl err \<Rightarrow> (Inl err, w)
      | Inr text \<Rightarrow> newFunction rt (''with(context) { return ('' @ text @ ''); }'') context w)"

text \<open>
  \<open>console.log\<close> of a template literal: the text of the line is made first, from the
  string conversions of the values it interpolates, left to right; a value with no string
  conversion raises there and nothing is logged. The event keeps the values, from which
  the text of the line follows.
\<close>

definition console_log :: "'w runtime \<Rightarrow> json list \<Rightarrow> event \<Rightarrow> 'w run" where
  "console_log rt values ev s =
     (case mapE (toString rt) values of
        Inl err \<Rightarrow> (Threw err, s)
      | Inr texts \<Rightarrow> (Returned, emit ev s))"

text \<open>One statement after another: what follows runs when the first returns.\<close>

definition and_then :: "completion \<times> 'w state \<Rightarrow> 'w run \<Rightarrow> completion \<times> 'w state" where
  "and_then first rest =
     (case first of
        (Returned, s') \<Rightarrow> rest s'
      | (Threw err, s') \<Rightarrow> (Threw err, s'))"


section \<open>Actions\<close>

text \<open>
  The interface \<open>Action\<close> (lines 2 to 5) and the five classes that implement it. The
  interface is open: \<open>OtherAction\<close> is any other value that stands where an \<open>Action\<close> is
  expected, given by what \<open>execute(context)\<close> does on it and what \<open>toJSON()\<close> returns or
  throws. \<open>falseAction\<close> is optional (line 57).
\<close>

datatype 'w action =
    SendSmsAction json
  | SendEmailAction json json
  | ConditionAction json "'w action" "'w action option"
  | LoopAction json "'w action"
  | SequenceAction "'w action list"
  | OtherAction "json \<Rightarrow> 'w state \<Rightarrow> completion \<times> 'w state" "jserror + json"

text \<open>
  The loop of lines 95 to 98, \<open>for (let i = 0; i < iterations; i++) { log; body }\<close>, from
  counter \<open>i\<close> on. A body that throws ends the loop: nothing catches it.
\<close>

function for_loop :: "'w runtime \<Rightarrow> json \<Rightarrow> 'w run \<Rightarrow> nat \<Rightarrow> 'w run" where
  "for_loop rt iterations body i s =
     (case less_counter rt i iterations of
        Inl err \<Rightarrow> (Threw err, s)
      | Inr continue \<Rightarrow>
          if continue then
            (case body (emit (IterationLog (i + 1)) s) of
               (Returned, s') \<Rightarrow> for_loop rt iterations body (i + 1) s'
             | (Threw err, s') \<Rightarrow> (Threw err, s'))
          else (Returned, s))"
  by pat_completeness auto
termination
proof (relation "measure (\<lambda>(rt, iterations, body, i, s).
         (case toNumber rt iterations of Inr (Some r) \<Rightarrow> nat \<lceil>r\<rceil> | _ \<Rightarrow> 0) - i)")
  show "wf (measure (\<lambda>(rt, iterations, body, i, s).
         (case toNumber rt iterations of Inr (Some r) \<Rightarrow> nat \<lceil>r\<rceil> | _ \<Rightarrow> 0) - i))"
    by simp
next
  fix rt :: "'w runtime" and iterations i continue and s s' :: "'w state"
    and body :: "'w run"
  assume "less_counter rt i iterations = Inr continue" and continue
  then obtain r where r: "toNumber rt iterations = Inr (Some r)" and ir: "of_nat i < r"
    by (auto simp: less_counter_def bindE_def split: sum.splits option.splits)
  have "of_nat i < (of_int \<lceil>r\<rceil> :: rat)"
    using ir le_of_int_ceiling [of r] by linarith
  then have "int i < \<lceil>r\<rceil>"
    by (metis of_int_less_iff of_int_of_nat_eq)
  then have "i < nat \<lceil>r\<rceil>"
    by linarith
  then show "((rt, iterations, body, i + 1, s'), (rt, iterations, body, i, s))
      \<in> measure (\<lambda>(rt, iterations, body, i, s).
         (case toNumber rt iterations of Inr (Some r) \<Rightarrow> nat \<lceil>r\<rceil> | _ \<Rightarrow> 0) - i)"
    using r by simp
qed

declare for_loop.simps [simp del]

text \<open>
  The loop of lines 116 to 118, \<open>for (const action of actions) action.execute(context)\<close>,
  over the steps' executions. A step that throws ends the loop: nothing catches it.
\<close>

fun for_of :: "'w run list \<Rightarrow> 'w run" where
  "for_of [] s = (Returned, s)"
| "for_of (step # steps) s =
     (case step s of
        (Returned, s') \<Rightarrow> for_of steps s'
      | (Threw err, s') \<Rightarrow> (Threw err, s'))"

text \<open>
  \<open>execute(context)\<close> of each class. In \<open>ConditionAction\<close> the \<open>try\<close> of lines 60 to 66
  covers the evaluation only: an error there is logged and leaves \<open>result\<close> false. The
  log of line 67 and the branch run after the \<open>try\<close>, so what they throw leaves
  \<open>execute\<close>. The lines 96 and 115 interpolate a number, which always has a text.
\<close>

fun execute :: "'w runtime \<Rightarrow> 'w action \<Rightarrow> json \<Rightarrow> 'w run" where
  "execute rt (SendSmsAction phone) context s = console_log rt [phone] (SmsLog phone) s"
| "execute rt (SendEmailAction sender receiver) context s =
     console_log rt [sender, receiver] (EmailLog sender receiver) s"
| "execute rt (ConditionAction expression trueAction falseAction) context s =
     (let (outcome, w) =
            evalFunction rt expression (if truthy context then context else JObj []) (world s);
          s1 = s\<lparr>world := w\<rparr>;
          (result, s2) =
            (case outcome of
               Inr v \<Rightarrow> (truthy v, s1)
             | Inl err \<Rightarrow> (False, emit (EvaluationErrorLog err) s1))
      in and_then (console_log rt [expression] (ConditionLog expression result) s2)
           (\<lambda>s3. if result then execute rt trueAction context s3
                 else (case falseAction of
                         Some a \<Rightarrow> execute rt a context s3
                       | None \<Rightarrow> (Returned, s3))))"
| "execute rt (LoopAction iterations action) context s =
     and_then (console_log rt [iterations] (LoopLog iterations) s)
       (for_loop rt iterations (\<lambda>s'. execute rt action context s') 0)"
| "execute rt (SequenceAction actions) context s =
     for_of (map (\<lambda>action s'. execute rt action context s') actions)
       (emit (SequenceLog (length actions)) s)"
| "execute rt (OtherAction run tojson) context s = run context s"

text \<open>
  \<open>toJSON()\<close> of each class. An absent \<open>falseAction\<close> is written as the property
  \<open>falseAction: undefined\<close> (line 79).
\<close>

fun toJSON :: "'w action \<Rightarrow> jserror + json" where
  "toJSON (SendSmsAction phone) =
     Inr (JObj [(''type'', JStr ''send_sms''), (''params'', JObj [(''phone'', phone)])])"
| "toJSON (SendEmailAction sender receiver) =
     Inr (JObj [(''type'', JStr ''send_email''),
                (''params'', JObj [(''sender'', sender), (''receiver'', receiver)])])"
| "toJSON (ConditionAction expression trueAction falseAction) =
     bindE (toJSON trueAction) (\<lambda>t.
     bindE (case falseAction of Some a \<Rightarrow> toJSON a | None \<Rightarrow> Inr JUndefined) (\<lambda>f.
     Inr (JObj [(''type'', JStr ''condition''),
                (''params'', JObj [(''expression'', expression)]),
                (''trueAction'', t),
                (''falseAction'', f)])))"
| "toJSON (LoopAction iterations action) =
     bindE (toJSON action) (\<lambda>a.
     Inr (JObj [(''type'', JStr ''loop''),
                (''params'', JObj [(''iterations'', iterations)]),
                (''action'', a)]))"
| "toJSON (SequenceAction actions) =
     bindE (mapE toJSON actions) (\<lambda>js.
     Inr (JObj [(''type'', JStr ''sequence''), (''actions'', JArr js)]))"
| "toJSON (OtherAction run tojson) = tojson"

section \<open>The factory\<close>

text \<open>
  A registered factory builds an action from a node, or throws. The factories of lines
  39, 52, 83, 108 and 124; \<open>create\<close> is \<open>ActionFactory.createAction\<close>, which three of them
  call on the child nodes. The arguments of a constructor are evaluated left to right, so
  \<open>json.params.x\<close> is read, and raises on a node without \<open>params\<close>, before any child is built.
  \<open>json.actions.map\<close> is the array method when \<open>json.actions\<close> is an array, and a
  \<open>TypeError\<close> on anything else.
\<close>

type_synonym 'w factory = "json \<Rightarrow> jserror + 'w action"

definition send_sms_factory :: "'w factory" where
  "send_sms_factory json =
     bindE (get_prop json ''params'') (\<lambda>params.
     bindE (get_prop params ''phone'') (\<lambda>phone.
     Inr (SendSmsAction phone)))"

definition send_email_factory :: "'w factory" where
  "send_email_factory json =
     bindE (get_prop json ''params'') (\<lambda>params.
     bindE (get_prop params ''sender'') (\<lambda>sender.
     bindE (get_prop params ''receiver'') (\<lambda>receiver.
     Inr (SendEmailAction sender receiver))))"

definition condition_factory :: "'w factory \<Rightarrow> 'w factory" where
  "condition_factory create json =
     bindE (get_prop json ''params'') (\<lambda>params.
     bindE (get_prop params ''expression'') (\<lambda>expression.
     bindE (get_prop json ''trueAction'') (\<lambda>t.
     bindE (create t) (\<lambda>trueAction.
     bindE (get_prop json ''falseAction'') (\<lambda>f.
     if truthy f then bindE (create f) (\<lambda>falseAction.
       Inr (ConditionAction expression trueAction (Some falseAction)))
     else Inr (ConditionAction expression trueAction None))))))"

definition loop_factory :: "'w factory \<Rightarrow> 'w factory" where
  "loop_factory create json =
     bindE (get_prop json ''params'') (\<lambda>params.
     bindE (get_prop params ''iterations'') (\<lambda>iterations.
     bindE (get_prop json ''action'') (\<lambda>a.
     bindE (create a) (\<lambda>action.
     Inr (LoopAction iterations action)))))"

definition sequence_factory :: "'w factory \<Rightarrow> 'w factory" where
  "sequence_factory create json =
     bindE (get_prop json ''actions'') (\<lambda>actions.
     case actions of
       JArr nodes \<Rightarrow> bindE (mapE create nodes) (\<lambda>actions. Inr (SequenceAction actions))
     | _ \<Rightarrow> Inl TypeError)"

text \<open>
  The registry (line 9) is the object \<open>{}\<close>; \<open>register\<close> (line 12) sets an own property.
  After the module has loaded, the five calls of \<open>register\<close> have run, in the file's order.
\<close>

type_synonym 'w registry = "string \<rightharpoonup> 'w factory"

definition register :: "string \<Rightarrow> 'w factory \<Rightarrow> 'w registry \<Rightarrow> 'w registry" where
  "register type factory reg = reg(type \<mapsto> factory)"

definition registry :: "'w factory \<Rightarrow> 'w registry" where
  "registry create =
     register ''sequence'' (sequence_factory create)
    (register ''loop'' (loop_factory create)
    (register ''condition'' (condition_factory create)
    (register ''send_email'' send_email_factory
    (register ''send_sms'' send_sms_factory Map.empty))))"

text \<open>
  An object made by \<open>{}\<close> inherits the properties of \<open>Object.prototype\<close>, and the read
  \<open>registry[key]\<close> of line 19 finds them when \<open>key\<close> is not an own property. What line 23
  then calls: \<open>constructor\<close> is the function \<open>Object\<close>, which returns the node it is given;
  \<open>toString\<close>, called as a plain function, returns a string; neither value has a method
  \<open>execute\<close> or \<open>toJSON\<close>, so calling either on it raises a \<open>TypeError\<close>. The other
  inherited methods raise a \<open>TypeError\<close> when called as a plain function, and \<open>__proto__\<close>
  is not a function.
\<close>

definition not_an_action :: "'w action" where
  "not_an_action = OtherAction (\<lambda>context s. (Threw TypeError, s)) (Inl TypeError)"

definition Object_prototype :: "'w registry" where
  "Object_prototype key =
     (if key \<in> set [''constructor'', ''toString''] then Some (\<lambda>json. Inr not_an_action)
      else if key \<in> set [''__proto__'', ''hasOwnProperty'', ''isPrototypeOf'',
                ''propertyIsEnumerable'', ''toLocaleString'', ''valueOf'',
                ''__defineGetter__'', ''__defineSetter__'',
                ''__lookupGetter__'', ''__lookupSetter__'']
      then Some (\<lambda>json. Inl TypeError)
      else None)"

definition registry_get :: "'w registry \<Rightarrow> string \<Rightarrow> 'w factory option" where
  "registry_get reg key = (case reg key of Some factory \<Rightarrow> Some factory | None \<Rightarrow> Object_prototype key)"

text \<open>
  Lines 19 to 23: the read of the registry and, when it gives something, the call of it
  on the node. \<open>None\<close> is the falsy read, which line 21 turns into an error.
\<close>

definition call_factory :: "'w factory \<Rightarrow> string \<Rightarrow> json \<Rightarrow> (jserror + 'w action) option" where
  "call_factory create key json =
     (case registry_get (registry create) key of
        None \<Rightarrow> None
      | Some factory \<Rightarrow> Some (factory json))"

lemma size_map_of: "map_of kvs k = Some v \<Longrightarrow> size v < size (JObj kvs)"
  by (induction kvs) (auto split: if_splits)

lemma size_get_prop: "get_prop (JObj kvs) k = Inr v \<Longrightarrow> size v < size (JObj kvs)"
  using size_map_of [of kvs k] by (auto split: option.splits)

lemma size_element: "x \<in> set xs \<Longrightarrow> size x < size (JArr xs)"
  by (induction xs) auto

lemma call_factory_cong [fundef_cong]:
  assumes "key = key'" "json = json'"
    and same: "\<And>child. size child < size json' \<Longrightarrow> create child = create' child"
  shows "call_factory create key json = call_factory create' key' json'"
proof -
  have cond: "condition_factory create json' = condition_factory create' json'"
  proof (cases json')
    case (JObj kvs)
    then show ?thesis
      using same size_get_prop [of kvs]
      by (auto simp: condition_factory_def bindE_def split: sum.splits)
  qed (simp_all add: condition_factory_def bindE_def)
  have loop: "loop_factory create json' = loop_factory create' json'"
  proof (cases json')
    case (JObj kvs)
    then show ?thesis
      using same size_get_prop [of kvs]
      by (auto simp: loop_factory_def bindE_def split: sum.splits)
  qed (simp_all add: loop_factory_def bindE_def)
  have seq: "sequence_factory create json' = sequence_factory create' json'"
  proof (cases json')
    case (JObj kvs)
    have "mapE create nodes = mapE create' nodes"
      if "get_prop (JObj kvs) ''actions'' = Inr (JArr nodes)" for nodes
    proof (rule mapE_cong [OF refl])
      fix x assume "x \<in> set nodes"
      then have "size x < size (JArr nodes)" by (rule size_element)
      also have "\<dots> < size (JObj kvs)" using that by (rule size_get_prop)
      finally show "create x = create' x" using same JObj by simp
    qed
    with JObj show ?thesis
      by (auto simp: sequence_factory_def bindE_def split: sum.splits json.splits)
  qed (simp_all add: sequence_factory_def bindE_def)
  show ?thesis
    using assms(1,2) cond loop seq
    by (simp add: call_factory_def registry_get_def registry_def register_def)
qed

text \<open>
  \<open>ActionFactory.createAction\<close>, lines 15 to 24. \<open>!json || !json.type\<close> reads \<open>json.type\<close>
  only when \<open>json\<close> is truthy. The key of the read of line 19 is \<open>json.type\<close> converted to
  a string, and the read raises when \<open>json.type\<close> has no string conversion; line 21
  converts it the same way.
\<close>

function createAction :: "'w runtime \<Rightarrow> 'w factory" where
  "createAction rt json =
     (if \<not> truthy json then Inl (Error ''Invalid JSON: missing type property.'')
      else bindE (get_prop json ''type'') (\<lambda>type.
        if \<not> truthy type then Inl (Error ''Invalid JSON: missing type property.'')
        else bindE (toString rt type) (\<lambda>key.
          case call_factory (createAction rt) key json of
            None \<Rightarrow> Inl (Error (''Unknown action type: '' @ key))
          | Some result \<Rightarrow> result)))"
  by pat_completeness auto
termination
  by (relation "measure (\<lambda>(rt, json). size json)") auto

declare createAction.simps [simp del]

section \<open>The service\<close>

text \<open>
  \<open>DecisionTreeService.processDecisionTree\<close>, lines 132 to 139. The function is \<open>void\<close>:
  whatever happens inside the \<open>try\<close>, the \<open>catch\<close> logs it and the call returns.
\<close>

definition processDecisionTree :: "'w runtime \<Rightarrow> json \<Rightarrow> json \<Rightarrow> 'w run" where
  "processDecisionTree rt json context s =
     (case createAction rt json of
        Inl err \<Rightarrow> (Returned, emit (ProcessingErrorLog err) s)
      | Inr action \<Rightarrow>
          (case execute rt action context s of
             (Returned, s') \<Rightarrow> (Returned, s')
           | (Threw err, s') \<Rightarrow> (Returned, emit (ProcessingErrorLog err) s')))"

section \<open>Notions the properties are stated with\<close>

text \<open>An action built from the five classes of the file only, at every node.\<close>

fun builtin :: "'w action \<Rightarrow> bool" where
  "builtin (SendSmsAction phone) = True"
| "builtin (SendEmailAction sender receiver) = True"
| "builtin (ConditionAction expression trueAction falseAction) =
     (builtin trueAction \<and> (case falseAction of Some a \<Rightarrow> builtin a | None \<Rightarrow> True))"
| "builtin (LoopAction iterations action) = builtin action"
| "builtin (SequenceAction actions) = list_all builtin actions"
| "builtin (OtherAction run tojson) = False"

text \<open>
  The state after the given actions have been executed one after the other, in the order
  of the list, each on the state the one before it left.
\<close>

definition run_steps :: "'w runtime \<Rightarrow> json \<Rightarrow> 'w action list \<Rightarrow> 'w state \<Rightarrow> 'w state" where
  "run_steps rt context actions s = foldl (\<lambda>s a. snd (execute rt a context s)) s actions"

text \<open>
  The state after the body of a loop has been executed for the iterations \<open>1, ..., k\<close>,
  in ascending order: each time the line of the iteration is logged and the body is
  executed with the same context, on the state the iteration before left.
\<close>

definition after_iterations :: "'w runtime \<Rightarrow> 'w action \<Rightarrow> json \<Rightarrow> nat \<Rightarrow> 'w state \<Rightarrow> 'w state" where
  "after_iterations rt body context k s =
     foldl (\<lambda>s i. snd (execute rt body context (emit (IterationLog i) s))) s [1..<Suc k]"

section \<open>Sample inputs\<close>

text \<open>
  The expression of \<open>christmasDecisionTree\<close> (line 147), \<open>date === '1.1.2025'\<close>, and a
  runtime that knows the function made from this one expression: it compares the
  context's \<open>date\<close>, raises a reference error when the context has none, and takes
  every other text for a syntax error. Its conversions between numbers and strings are
  placeholders: the events keep the values, so no text of a number appears below.
\<close>

definition christmas_expression :: string where
  "christmas_expression = ''date === '' @ [CHR 0x27] @ ''1.1.2025'' @ [CHR 0x27]"

definition demo_runtime :: "unit runtime" where
  "demo_runtime =
     \<lparr>newFunction = (\<lambda>body context w.
        (if body = ''with(context) { return ('' @ christmas_expression @ ''); }'' then
           (case get_prop context ''date'' of
              Inl err \<Rightarrow> Inl err
            | Inr JUndefined \<Rightarrow> Inl ReferenceError
            | Inr v \<Rightarrow> Inr (JBool (v = JStr ''1.1.2025'')))
         else Inl SyntaxError, w)),
      numberToString = (\<lambda>r. ''number''),
      stringToNumber = (\<lambda>s. None)\<rparr>"

definition start :: "unit state" where
  "start = \<lparr>console = [], world = ()\<rparr>"

text \<open>An implementation of \<open>Action\<close> whose \<open>execute\<close> throws.\<close>

definition failing_action :: "unit action" where
  "failing_action = OtherAction (\<lambda>context s. (Threw (Error ''step failed''), s)) (Inr (JObj []))"

text \<open>
  Two of the example trees of the source (lines 145 to 159), and the action the first
  one is the wire form of.
\<close>

definition christmasDecisionTree :: json where
  "christmasDecisionTree =
     JObj [(''type'', JStr ''condition''),
           (''params'', JObj [(''expression'', JStr christmas_expression)]),
           (''trueAction'', JObj [(''type'', JStr ''send_sms''),
                                  (''params'', JObj [(''phone'', JStr ''1234567890'')])]),
           (''falseAction'', JObj [(''type'', JStr ''sequence''), (''actions'', JArr [])])]"

definition emailAndSmsTree :: json where
  "emailAndSmsTree =
     JObj [(''type'', JStr ''sequence''),
           (''actions'', JArr [
              JObj [(''type'', JStr ''send_email''),
                    (''params'', JObj [(''sender'', JStr ''a@example.com''),
                                       (''receiver'', JStr ''b@example.com'')])],
              JObj [(''type'', JStr ''send_sms''),
                    (''params'', JObj [(''phone'', JStr ''1234567890'')])],
              JObj [(''type'', JStr ''send_email''),
                    (''params'', JObj [(''sender'', JStr ''a@example.com''),
                                       (''receiver'', JStr ''c@example.com'')])]])]"

definition christmas_action :: "unit action" where
  "christmas_action =
     ConditionAction (JStr christmas_expression) (SendSmsAction (JStr ''1234567890''))
       (Some (SequenceAction []))"

section \<open>The loops\<close>

lemma console_log_string [simp]: "console_log rt [JStr x] ev s = (Returned, emit ev s)"
  by (simp add: console_log_def)

lemma console_log_strings [simp]: "console_log rt [JStr x, JStr y] ev s = (Returned, emit ev s)"
  by (simp add: console_log_def)

lemma console_log_number [simp]: "console_log rt [JNum r] ev s = (Returned, emit ev s)"
  by (simp add: console_log_def)

lemma less_counter_number [simp]: "less_counter rt i (JNum r) = Inr (of_nat i < r)"
  by (simp add: less_counter_def toNumber_def)

lemma for_loop_stop: "less_counter rt i n = Inr False \<Longrightarrow> for_loop rt n body i s = (Returned, s)"
  by (simp add: for_loop.simps)

lemma for_loop_step:
  "less_counter rt i n = Inr True \<Longrightarrow>
   for_loop rt n body i s =
     (case body (emit (IterationLog (i + 1)) s) of
        (Returned, s') \<Rightarrow> for_loop rt n body (i + 1) s'
      | (Threw err, s') \<Rightarrow> (Threw err, s'))"
  by (subst for_loop.simps) simp

lemma for_loop_prefix:
  fixes body :: "'w run"
  defines "step \<equiv> \<lambda>s k. snd (body (emit (IterationLog k) s))"
  assumes "\<forall>k<m. fst (body (emit (IterationLog (Suc k)) (foldl step s [1..<Suc k]))) = Returned"
    and "m \<le> n"
  shows "for_loop rt (JNum (of_nat n)) body 0 s =
         for_loop rt (JNum (of_nat n)) body m (foldl step s [1..<Suc m])"
  using assms(2,3)
proof (induction m)
  case 0
  then show ?case by simp
next
  case (Suc m)
  let ?sm = "foldl step s [1..<Suc m]"
  have m: "m < n" using Suc.prems by simp
  have "fst (body (emit (IterationLog (Suc m)) ?sm)) = Returned"
    using Suc.prems(1) [THEN spec, of m] by (simp del: upt_Suc)
  then have body: "body (emit (IterationLog (Suc m)) ?sm) = (Returned, step ?sm (Suc m))"
    by (cases "body (emit (IterationLog (Suc m)) ?sm)") (simp add: step_def)
  have "for_loop rt (JNum (of_nat n)) body 0 s = for_loop rt (JNum (of_nat n)) body m ?sm"
    using Suc by simp
  also have "\<dots> = for_loop rt (JNum (of_nat n)) body (Suc m) (step ?sm (Suc m))"
    using m body by (simp add: for_loop_step del: upt_Suc)
  also have "step ?sm (Suc m) = foldl step s [1..<Suc (Suc m)]"
    by simp
  finally show ?case .
qed

text \<open>
  C7, as the code has it. The claim that the body is invoked exactly \<open>n\<close> times whatever
  the body fails: the loop of lines 95 to 98 has no \<open>try\<close>, so with a count of 3 and a
  body whose \<open>execute\<close> throws, the body is invoked once, for iteration 1, and the error
  leaves the loop.
\<close>

theorem loop_body_throws_counterexample:
  "execute demo_runtime (LoopAction (JNum 3) failing_action) JUndefined start =
     (Threw (Error ''step failed''), \<lparr>console = [LoopLog (JNum 3), IterationLog 1], world = ()\<rparr>)"
  by (simp add: failing_action_def console_log_def and_then_def for_loop_step emit_def start_def)

text \<open>
  C7, amended. A loop whose count is the non-negative integer \<open>n\<close> invokes the body's
  \<open>execute\<close> for the iterations \<open>1, 2, ...\<close> in ascending order, one invocation after the
  other, each with the same context. When the first \<open>m\<close> invocations return and \<open>m = n\<close>,
  the loop returns: the body has been invoked exactly \<open>n\<close> times, and not at all when
  \<open>n = 0\<close>. When the first \<open>m\<close> invocations return, \<open>m < n\<close> and invocation \<open>m + 1\<close> throws
  \<open>err\<close>, the later iterations are not run and the loop throws \<open>err\<close>: the state is the
  one that invocation left.
\<close>

theorem loop_invokes_body_until_throw:
  assumes "\<forall>k<m. fst (execute rt body context (emit (IterationLog (Suc k))
              (after_iterations rt body context k (emit (LoopLog (JNum (of_nat n))) s)))) = Returned"
    and "m \<le> n"
  shows "(m = n \<longrightarrow>
            execute rt (LoopAction (JNum (of_nat n)) body) context s =
              (Returned, after_iterations rt body context n (emit (LoopLog (JNum (of_nat n))) s)))
       \<and> (m < n \<and>
          fst (execute rt body context (emit (IterationLog (Suc m))
                (after_iterations rt body context m (emit (LoopLog (JNum (of_nat n))) s)))) = Threw err \<longrightarrow>
            execute rt (LoopAction (JNum (of_nat n)) body) context s =
              (Threw err, after_iterations rt body context (Suc m) (emit (LoopLog (JNum (of_nat n))) s)))"
proof -
  let ?b = "\<lambda>s'. execute rt body context s'"
  let ?s0 = "emit (LoopLog (JNum (of_nat n))) s"
  let ?sm = "after_iterations rt body context m ?s0"
  have "execute rt (LoopAction (JNum (of_nat n)) body) context s = for_loop rt (JNum (of_nat n)) ?b 0 ?s0"
    by (simp add: console_log_def and_then_def)
  also have "\<dots> = for_loop rt (JNum (of_nat n)) ?b m ?sm"
    using for_loop_prefix [of m ?b ?s0 n rt] assms by (simp add: after_iterations_def del: upt_Suc)
  finally have pre: "execute rt (LoopAction (JNum (of_nat n)) body) context s =
      for_loop rt (JNum (of_nat n)) ?b m ?sm" .
  have all: "execute rt (LoopAction (JNum (of_nat n)) body) context s =
      (Returned, after_iterations rt body context n ?s0)" if "m = n"
    using pre that by (simp add: for_loop_stop)
  have stop: "execute rt (LoopAction (JNum (of_nat n)) body) context s =
      (Threw err, after_iterations rt body context (Suc m) ?s0)"
    if m: "m < n" and thr: "fst (?b (emit (IterationLog (Suc m)) ?sm)) = Threw err"
  proof -
    have "for_loop rt (JNum (of_nat n)) ?b m ?sm = (Threw err, snd (?b (emit (IterationLog (Suc m)) ?sm)))"
      using m thr by (cases "?b (emit (IterationLog (Suc m)) ?sm)") (simp add: for_loop_step)
    moreover have "snd (?b (emit (IterationLog (Suc m)) ?sm)) = after_iterations rt body context (Suc m) ?s0"
      by (simp add: after_iterations_def)
    ultimately show ?thesis using pre by simp
  qed
  from all stop show ?thesis by blast
qed

theorem loop_invokes_body_until_throw_witness:
  "execute demo_runtime (LoopAction (JNum (of_nat 3)) (SendSmsAction (JStr ''555''))) JUndefined start =
     (Returned, \<lparr>console = [LoopLog (JNum 3),
        IterationLog 1, SmsLog (JStr ''555''),
        IterationLog 2, SmsLog (JStr ''555''),
        IterationLog 3, SmsLog (JStr ''555'')], world = ()\<rparr>)
   \<and> execute demo_runtime (LoopAction (JNum (of_nat 0)) (SendSmsAction (JStr ''555''))) JUndefined start =
     (Returned, \<lparr>console = [LoopLog (JNum 0)], world = ()\<rparr>)
   \<and> execute demo_runtime (LoopAction (JNum (of_nat 3)) failing_action) JUndefined start =
     (Threw (Error ''step failed''), \<lparr>console = [LoopLog (JNum 3), IterationLog 1], world = ()\<rparr>)"
  using loop_invokes_body_until_throw [of 3 demo_runtime "SendSmsAction (JStr ''555'')" JUndefined 3 start]
    loop_invokes_body_until_throw [of 0 demo_runtime "SendSmsAction (JStr ''555'')" JUndefined 0 start]
    loop_invokes_body_until_throw [of 0 demo_runtime failing_action JUndefined 3 start "Error ''step failed''"]
  by (simp add: after_iterations_def failing_action_def console_log_def emit_def start_def
      upt_conv_Cons less_Suc_eq)

text \<open>
  C10. A loop whose count is zero or negative does not invoke the body and returns
  without an error: all it does is log its first line.
\<close>

theorem loop_nonpositive_count:
  assumes "r \<le> 0"
  shows "execute rt (LoopAction (JNum r) body) context s = (Returned, emit (LoopLog (JNum r)) s)"
  using assms by (simp add: console_log_def and_then_def for_loop_stop)

theorem loop_nonpositive_count_witness:
  "(-1 :: rat) \<le> 0 \<and>
   execute demo_runtime (LoopAction (JNum (-1)) failing_action) JUndefined start =
     (Returned, \<lparr>console = [LoopLog (JNum (-1))], world = ()\<rparr>)"
  using loop_nonpositive_count [of "-1" demo_runtime failing_action JUndefined start]
  by (simp add: emit_def start_def)

section \<open>The condition\<close>

lemma console_log_returns:
  "toString rt v = Inr text \<Longrightarrow> console_log rt [v] ev s = (Returned, emit ev s)"
  by (simp add: console_log_def)


lemma evalFunction_value:
  "evalFunction rt expression context w = (Inr v, w') \<Longrightarrow> \<exists>text. toString rt expression = Inr text"
  by (cases "toString rt expression") (simp_all add: evalFunction_def)




text \<open>
  C8. When the expression evaluates to a value \<open>v\<close>, the result is \<open>Boolean(v)\<close>. If it is
  true, \<open>execute\<close> is the execution of \<open>trueAction\<close> and of nothing else; if it is false,
  it is the execution of \<open>falseAction\<close> and of nothing else when there is one, and a
  return with nothing done when there is none.
\<close>

theorem condition_branch:
  assumes "evalFunction rt expression (if truthy context then context else JObj []) (world s) = (Inr v, w)"
  shows "execute rt (ConditionAction expression trueAction falseAction) context s =
     (if truthy v then
        execute rt trueAction context (emit (ConditionLog expression True) (s\<lparr>world := w\<rparr>))
      else (case falseAction of
        Some a \<Rightarrow> execute rt a context (emit (ConditionLog expression False) (s\<lparr>world := w\<rparr>))
      | None \<Rightarrow> (Returned, emit (ConditionLog expression False) (s\<lparr>world := w\<rparr>))))"
proof -
  obtain line where "toString rt expression = Inr line"
    using evalFunction_value [OF assms] by auto
  then show ?thesis
    using assms by (simp add: console_log_returns and_then_def split: option.splits)
qed

theorem condition_branch_witness:
  "execute demo_runtime
     (ConditionAction (JStr christmas_expression) (SendSmsAction (JStr ''t'')) (Some (SendSmsAction (JStr ''f''))))
     (JObj [(''date'', JStr ''1.1.2025'')]) start =
     (Returned, \<lparr>console = [ConditionLog (JStr christmas_expression) True, SmsLog (JStr ''t'')], world = ()\<rparr>)
   \<and> execute demo_runtime
     (ConditionAction (JStr christmas_expression) (SendSmsAction (JStr ''t'')) (Some (SendSmsAction (JStr ''f''))))
     (JObj [(''date'', JStr ''2.1.2025'')]) start =
     (Returned, \<lparr>console = [ConditionLog (JStr christmas_expression) False, SmsLog (JStr ''f'')], world = ()\<rparr>)
   \<and> execute demo_runtime
     (ConditionAction (JStr christmas_expression) (SendSmsAction (JStr ''t'')) None)
     (JObj [(''date'', JStr ''2.1.2025'')]) start =
     (Returned, \<lparr>console = [ConditionLog (JStr christmas_expression) False], world = ()\<rparr>)"
  using condition_branch [of demo_runtime "JStr christmas_expression" "JObj [(''date'', JStr ''1.1.2025'')]"
      start "JBool True" "()" "SendSmsAction (JStr ''t'')" "Some (SendSmsAction (JStr ''f''))"]
    condition_branch [of demo_runtime "JStr christmas_expression" "JObj [(''date'', JStr ''2.1.2025'')]"
      start "JBool False" "()" "SendSmsAction (JStr ''t'')" "Some (SendSmsAction (JStr ''f''))"]
    condition_branch [of demo_runtime "JStr christmas_expression" "JObj [(''date'', JStr ''2.1.2025'')]"
      start "JBool False" "()" "SendSmsAction (JStr ''t'')" None]
  by (simp add: evalFunction_def demo_runtime_def console_log_def emit_def start_def)

section \<open>The sequence\<close>

lemma for_of_prefix:
  assumes "\<forall>k<n. fst (execute rt (actions ! k) context (run_steps rt context (take k actions) s)) = Returned"
    and "n \<le> length actions"
  shows "for_of (map (\<lambda>action s'. execute rt action context s') actions) s =
         for_of (map (\<lambda>action s'. execute rt action context s') (drop n actions))
           (run_steps rt context (take n actions) s)"
  using assms
proof (induction n)
  case 0
  then show ?case by (simp add: run_steps_def)
next
  case (Suc n)
  let ?f = "\<lambda>action s'. execute rt action context s'"
  let ?sn = "run_steps rt context (take n actions) s"
  have n: "n < length actions" using Suc.prems by simp
  have ret: "fst (execute rt (actions ! n) context ?sn) = Returned"
    using Suc.prems by simp
  have "for_of (map ?f actions) s = for_of (map ?f (drop n actions)) ?sn"
    using Suc by simp
  also have "drop n actions = actions ! n # drop (Suc n) actions"
    using n by (simp add: Cons_nth_drop_Suc)
  also have "for_of (map ?f (actions ! n # drop (Suc n) actions)) ?sn =
      for_of (map ?f (drop (Suc n) actions)) (snd (execute rt (actions ! n) context ?sn))"
    using ret by (cases "execute rt (actions ! n) context ?sn") simp
  also have "snd (execute rt (actions ! n) context ?sn) = run_steps rt context (take (Suc n) actions) s"
    using n by (simp add: run_steps_def take_Suc_conv_app_nth)
  finally show ?case .
qed

text \<open>
  C2, as the code has it. The claim that the steps after a step that raises are still
  executed fails: the loop of lines 116 to 118 has no \<open>try\<close>, so with steps A, B, C where
  B throws, A is executed, C is not, and the error leaves the sequence.
\<close>

theorem sequence_continues_after_throw_counterexample:
  "execute demo_runtime
     (SequenceAction [SendSmsAction (JStr ''A''), failing_action, SendSmsAction (JStr ''C'')])
     JUndefined start =
   (Threw (Error ''step failed''), \<lparr>console = [SequenceLog 3, SmsLog (JStr ''A'')], world = ()\<rparr>)"
  by (simp add: failing_action_def emit_def start_def)

text \<open>
  C2, amended. A sequence executes its steps strictly in the order of the list, each on
  the state the step before left. When the first \<open>n\<close> steps return and they are all the
  steps, the sequence returns, having executed them all in order. When the first \<open>n\<close>
  steps return and step \<open>n + 1\<close> throws \<open>err\<close>, the steps after it are not executed and the
  sequence throws \<open>err\<close>: the state is the one that step left.
\<close>

theorem sequence_stops_at_first_throw:
  assumes "\<forall>k<n. fst (execute rt (actions ! k) context
              (run_steps rt context (take k actions) (emit (SequenceLog (length actions)) s))) = Returned"
    and "n \<le> length actions"
  shows "(n = length actions \<longrightarrow>
            execute rt (SequenceAction actions) context s =
              (Returned, run_steps rt context actions (emit (SequenceLog (length actions)) s)))
       \<and> (n < length actions \<and>
          fst (execute rt (actions ! n) context
                (run_steps rt context (take n actions) (emit (SequenceLog (length actions)) s))) = Threw err \<longrightarrow>
            execute rt (SequenceAction actions) context s =
              (Threw err, run_steps rt context (take (Suc n) actions) (emit (SequenceLog (length actions)) s)))"
proof -
  let ?f = "\<lambda>action s'. execute rt action context s'"
  let ?s0 = "emit (SequenceLog (length actions)) s"
  let ?sn = "run_steps rt context (take n actions) ?s0"
  have pre: "execute rt (SequenceAction actions) context s = for_of (map ?f (drop n actions)) ?sn"
    using for_of_prefix [OF assms] by simp
  have all: "execute rt (SequenceAction actions) context s = (Returned, run_steps rt context actions ?s0)"
    if "n = length actions"
    using pre that by simp
  have stop: "execute rt (SequenceAction actions) context s =
      (Threw err, run_steps rt context (take (Suc n) actions) ?s0)"
    if n: "n < length actions" and thr: "fst (execute rt (actions ! n) context ?sn) = Threw err"
  proof -
    have "drop n actions = actions ! n # drop (Suc n) actions"
      using n by (simp add: Cons_nth_drop_Suc)
    then have "for_of (map ?f (drop n actions)) ?sn = (Threw err, snd (execute rt (actions ! n) context ?sn))"
      using thr by (cases "execute rt (actions ! n) context ?sn") simp
    moreover have "snd (execute rt (actions ! n) context ?sn) = run_steps rt context (take (Suc n) actions) ?s0"
      using n by (simp add: run_steps_def take_Suc_conv_app_nth)
    ultimately show ?thesis using pre by simp
  qed
  from all stop show ?thesis by blast
qed

theorem sequence_stops_at_first_throw_witness:
  "execute demo_runtime
     (SequenceAction [SendSmsAction (JStr ''A''), SendSmsAction (JStr ''B'')]) JUndefined start =
   (Returned, \<lparr>console = [SequenceLog 2, SmsLog (JStr ''A''), SmsLog (JStr ''B'')], world = ()\<rparr>)
   \<and> execute demo_runtime
     (SequenceAction [SendSmsAction (JStr ''A''), failing_action, SendSmsAction (JStr ''B'')])
     JUndefined start =
   (Threw (Error ''step failed''), \<lparr>console = [SequenceLog 3, SmsLog (JStr ''A'')], world = ()\<rparr>)"
  using sequence_stops_at_first_throw [of 2 demo_runtime
      "[SendSmsAction (JStr ''A''), SendSmsAction (JStr ''B'')]" JUndefined start "Error ''x''"]
    sequence_stops_at_first_throw [of 1 demo_runtime
      "[SendSmsAction (JStr ''A''), failing_action, SendSmsAction (JStr ''B'')]" JUndefined start
      "Error ''step failed''"]
  by (simp add: run_steps_def failing_action_def emit_def start_def less_Suc_eq)

section \<open>Building actions from nodes\<close>

text \<open>
  \<open>createAction\<close> in the shape of lines 15 to 24: the two tests, the read of the
  registry, the error when the read gives nothing, the call of what it gives.
\<close>

lemma createAction_unfold:
  "createAction rt json =
     (if \<not> truthy json then Inl (Error ''Invalid JSON: missing type property.'')
      else bindE (get_prop json ''type'') (\<lambda>type.
        if \<not> truthy type then Inl (Error ''Invalid JSON: missing type property.'')
        else bindE (toString rt type) (\<lambda>key.
          case registry_get (registry (createAction rt)) key of
            None \<Rightarrow> Inl (Error (''Unknown action type: '' @ key))
          | Some factory \<Rightarrow> factory json)))"
  by (subst createAction.simps) (simp add: call_factory_def bindE_def split: option.splits sum.splits)

lemma dom_registry:
  "dom (registry create) = {''send_sms'', ''send_email'', ''condition'', ''loop'', ''sequence''}"
  by (auto simp: registry_def register_def)

lemma registry_get_own: "registry create key = Some factory \<Longrightarrow> registry_get (registry create) key = Some factory"
  by (simp add: registry_get_def)

lemma registry_get_none:
  "key \<notin> dom (registry create) \<Longrightarrow> key \<notin> dom (Object_prototype :: 'w registry) \<Longrightarrow>
   registry_get (registry create :: 'w registry) key = None"
  by (auto simp: registry_get_def dom_def split: option.splits)

lemma bindE_weak_cong: "m = m' \<Longrightarrow> bindE m f = bindE m' f"
  by simp

lemmas factory_defs = send_sms_factory_def send_email_factory_def condition_factory_def
  loop_factory_def sequence_factory_def registry_def register_def registry_get_def
  Object_prototype_def

text \<open>
  C5, as the code has it. The claim that every node whose type has no registered builder
  fails with the unknown-type error fails. A node whose \<open>type\<close> is present but falsy
  (here the empty string) fails the test \<open>!json.type\<close> of line 16 and gets the
  missing-type error. And a type that names a property the registry object inherits
  (here \<open>constructor\<close>) passes the test of line 20, though nothing was registered for
  it: \<open>createAction\<close> returns what the inherited function returns, with no error.
\<close>

theorem createAction_unregistered_type_counterexample:
  "[] \<notin> dom (registry (createAction demo_runtime))
   \<and> createAction demo_runtime (JObj [(''type'', JStr [])])
       = Inl (Error ''Invalid JSON: missing type property.'')
   \<and> ''constructor'' \<notin> dom (registry (createAction demo_runtime))
   \<and> createAction demo_runtime (JObj [(''type'', JStr ''constructor'')]) = Inr not_an_action"
  by (simp add: createAction_unfold factory_defs dom_def cong: bindE_weak_cong)

text \<open>
  C5, amended. \<open>createAction\<close> fails with the missing-type error for every node that is
  falsy and for every node whose \<open>type\<close> is falsy (absent, \<open>null\<close>, \<open>false\<close>, \<open>0\<close> or
  the empty string). For a node with a truthy \<open>type\<close>: when the type has no string
  conversion, the read of the registry raises the error of the conversion; when the
  type, converted to a string, names neither a registered builder nor a property
  inherited from \<open>Object.prototype\<close>, \<open>createAction\<close> fails with the unknown-type error;
  and when a builder is registered for it, \<open>createAction\<close> calls that builder on the
  node and returns what the builder returns, or throws what it throws. (The registered
  types are those of \<open>dom_registry\<close>.)
\<close>

theorem createAction_dispatch:
  "(\<not> truthy json \<longrightarrow> createAction rt json = Inl (Error ''Invalid JSON: missing type property.''))
   \<and> (truthy json \<and> get_prop json ''type'' = Inr tag \<and> \<not> truthy tag \<longrightarrow>
        createAction rt json = Inl (Error ''Invalid JSON: missing type property.''))
   \<and> (truthy json \<and> get_prop json ''type'' = Inr tag \<and> truthy tag
        \<and> toString rt tag = Inl err \<longrightarrow>
        createAction rt json = Inl err)
   \<and> (truthy json \<and> get_prop json ''type'' = Inr tag \<and> truthy tag
        \<and> toString rt tag = Inr key
        \<and> key \<notin> dom (registry (createAction rt))
        \<and> key \<notin> dom (Object_prototype :: 'w registry) \<longrightarrow>
        createAction rt json = Inl (Error (''Unknown action type: '' @ key)))
   \<and> (truthy json \<and> get_prop json ''type'' = Inr tag \<and> truthy tag
        \<and> toString rt tag = Inr key
        \<and> registry (createAction rt) key = Some factory \<longrightarrow>
        createAction rt json = factory json)"
  for rt :: "'w runtime"
proof (intro conjI impI)
  assume "\<not> truthy json"
  then show "createAction rt json = Inl (Error ''Invalid JSON: missing type property.'')"
    by (subst createAction_unfold) simp
next
  assume "truthy json \<and> get_prop json ''type'' = Inr tag \<and> \<not> truthy tag"
  then show "createAction rt json = Inl (Error ''Invalid JSON: missing type property.'')"
    by (subst createAction_unfold) simp
next
  assume "truthy json \<and> get_prop json ''type'' = Inr tag \<and> truthy tag
        \<and> toString rt tag = Inl err"
  then show "createAction rt json = Inl err"
    by (subst createAction_unfold) simp
next
  assume a: "truthy json \<and> get_prop json ''type'' = Inr tag \<and> truthy tag
        \<and> toString rt tag = Inr key
        \<and> key \<notin> dom (registry (createAction rt))
        \<and> key \<notin> dom (Object_prototype :: 'w registry)"
  then have "registry_get (registry (createAction rt)) key = None"
    by (simp add: registry_get_none)
  with a show "createAction rt json = Inl (Error (''Unknown action type: '' @ key))"
    by (subst createAction_unfold) simp
next
  assume a: "truthy json \<and> get_prop json ''type'' = Inr tag \<and> truthy tag
        \<and> toString rt tag = Inr key
        \<and> registry (createAction rt) key = Some factory"
  then have "registry_get (registry (createAction rt)) key = Some factory"
    by (simp add: registry_get_own)
  with a show "createAction rt json = factory json"
    by (subst createAction_unfold) simp
qed

theorem createAction_dispatch_witness:
  "createAction demo_runtime JNull = Inl (Error ''Invalid JSON: missing type property.'')
   \<and> createAction demo_runtime (JObj []) = Inl (Error ''Invalid JSON: missing type property.'')
   \<and> createAction demo_runtime (JObj [(''type'', JObj [(''toString'', JNum 0)])]) = Inl TypeError
   \<and> createAction demo_runtime (JObj [(''type'', JStr ''bogus'')]) = Inl (Error ''Unknown action type: bogus'')
   \<and> createAction demo_runtime (JObj [(''type'', JStr ''send_sms''), (''params'', JObj [(''phone'', JStr ''555'')])])
       = Inr (SendSmsAction (JStr ''555''))"
  using createAction_dispatch [where rt = demo_runtime and json = JNull]
    createAction_dispatch [where rt = demo_runtime and json = "JObj []" and tag = JUndefined]
    createAction_dispatch [where rt = demo_runtime
      and json = "JObj [(''type'', JObj [(''toString'', JNum 0)])]"
      and tag = "JObj [(''toString'', JNum 0)]" and err = TypeError]
    createAction_dispatch [where rt = demo_runtime and json = "JObj [(''type'', JStr ''bogus'')]"
      and tag = "JStr ''bogus''" and key = "''bogus''"]
    createAction_dispatch [where rt = demo_runtime
      and json = "JObj [(''type'', JStr ''send_sms''), (''params'', JObj [(''phone'', JStr ''555'')])]"
      and tag = "JStr ''send_sms''" and key = "''send_sms''" and factory = send_sms_factory]
  by (simp add: factory_defs dom_def)

text \<open>
  C9, as the code has it. The claim that no construction gives a loop whose count is
  negative or not an integer fails: the registered factory builds one from a node whose
  \<open>params.iterations\<close> is \<open>-1\<close>, and one from a node where it is \<open>2.5\<close>.
\<close>

theorem loop_count_validated_counterexample:
  "createAction demo_runtime
     (JObj [(''type'', JStr ''loop''), (''params'', JObj [(''iterations'', JNum (-1))]),
            (''action'', JObj [(''type'', JStr ''sequence''), (''actions'', JArr [])])])
     = Inr (LoopAction (JNum (-1)) (SequenceAction []))
   \<and> createAction demo_runtime
     (JObj [(''type'', JStr ''loop''), (''params'', JObj [(''iterations'', JNum (5 / 2))]),
            (''action'', JObj [(''type'', JStr ''sequence''), (''actions'', JArr [])])])
     = Inr (LoopAction (JNum (5 / 2)) (SequenceAction []))"
  by (simp add: createAction_unfold factory_defs cong: bindE_weak_cong)

text \<open>
  C9, amended. The count of a loop is not validated: the registered factory stores the
  node's \<open>params.iterations\<close>, whatever value it is, as the \<open>iterations\<close> of the
  \<open>LoopAction\<close> it builds around the action built from \<open>json.action\<close>, and the
  constructor (line 92) accepts any value. (What \<open>execute\<close> then does with a count that
  is zero or negative is C10.)
\<close>

theorem loop_factory_keeps_iterations:
  assumes "createAction rt node = Inr body"
  shows "createAction rt
     (JObj [(''type'', JStr ''loop''), (''params'', JObj [(''iterations'', v)]), (''action'', node)])
     = Inr (LoopAction v body)"
  using assms by (subst createAction_unfold) (simp add: factory_defs cong: bindE_weak_cong)

theorem loop_factory_keeps_iterations_witness:
  "createAction demo_runtime
     (JObj [(''type'', JStr ''loop''), (''params'', JObj [(''iterations'', JStr ''many'')]),
            (''action'', JObj [(''type'', JStr ''sequence''), (''actions'', JArr [])])])
     = Inr (LoopAction (JStr ''many'') (SequenceAction []))"
  using loop_factory_keeps_iterations [of demo_runtime
      "JObj [(''type'', JStr ''sequence''), (''actions'', JArr [])]" "SequenceAction []" "JStr ''many''"]
  by (simp add: createAction_unfold factory_defs cong: bindE_weak_cong)

text \<open>
  C6, as the code has it. The claim that a node of a registered type without \<open>params\<close>
  fails with the malformed-node error, surfaced to the caller of the run, fails:
  for \<open>{type: "send_sms"}\<close> the read \<open>json.params.phone\<close> of line 40 raises the
  language's \<open>TypeError\<close>, not the error of line 17, and \<open>processDecisionTree\<close> logs it
  and returns to its caller as it does after a success.
\<close>

theorem missing_params_counterexample:
  "createAction demo_runtime (JObj [(''type'', JStr ''send_sms'')]) = Inl TypeError
   \<and> createAction demo_runtime (JObj [(''type'', JStr ''send_sms'')])
       \<noteq> Inl (Error ''Invalid JSON: missing type property.'')
   \<and> processDecisionTree demo_runtime (JObj [(''type'', JStr ''send_sms'')]) JUndefined start =
       (Returned, \<lparr>console = [ProcessingErrorLog TypeError], world = ()\<rparr>)"
  by (simp add: processDecisionTree_def createAction_unfold factory_defs emit_def start_def
      cong: bindE_weak_cong)

text \<open>
  C6, amended. For every node whose type is \<open>send_sms\<close>, \<open>send_email\<close>, \<open>condition\<close> or
  \<open>loop\<close> and which has no \<open>params\<close>, \<open>createAction\<close> fails with a \<open>TypeError\<close>, raised
  by the read of a property of \<open>undefined\<close> before any child is built;
  \<open>processDecisionTree\<close> catches it, logs it and returns, and the run has executed no
  action.
\<close>

theorem missing_params_type_error:
  assumes "get_prop json ''type'' = Inr (JStr tag)"
    and "tag \<in> set [''send_sms'', ''send_email'', ''condition'', ''loop'']"
    and "get_prop json ''params'' = Inr JUndefined"
  shows "createAction rt json = Inl TypeError
       \<and> processDecisionTree rt json context s = (Returned, emit (ProcessingErrorLog TypeError) s)"
proof -
  have json: "truthy json"
    using assms(1) by (cases json) auto
  have unfold: "createAction rt json = factory json"
    if "tag \<noteq> []" and "registry (createAction rt) tag = Some factory" for factory
    using that json assms(1)
    by (subst createAction_unfold) (simp add: registry_get_def)
  consider "tag = ''send_sms''" | "tag = ''send_email''" | "tag = ''condition''" | "tag = ''loop''"
    using assms(2) by auto
  then have "createAction rt json = Inl TypeError"
  proof cases
    case 1
    then have "createAction rt json = send_sms_factory json"
      by (intro unfold) (simp_all add: registry_def register_def)
    then show ?thesis
      using assms(3) by (simp add: send_sms_factory_def bindE_Inr bindE_Inl)
  next
    case 2
    then have "createAction rt json = send_email_factory json"
      by (intro unfold) (simp_all add: registry_def register_def)
    then show ?thesis
      using assms(3) by (simp add: send_email_factory_def bindE_Inr bindE_Inl)
  next
    case 3
    then have "createAction rt json = condition_factory (createAction rt) json"
      by (intro unfold) (simp_all add: registry_def register_def)
    then show ?thesis
      using assms(3) by (simp add: condition_factory_def bindE_Inr bindE_Inl)
  next
    case 4
    then have "createAction rt json = loop_factory (createAction rt) json"
      by (intro unfold) (simp_all add: registry_def register_def)
    then show ?thesis
      using assms(3) by (simp add: loop_factory_def bindE_Inr bindE_Inl)
  qed
  then show ?thesis by (simp add: processDecisionTree_def)
qed

theorem missing_params_type_error_witness:
  "createAction demo_runtime (JObj [(''type'', JStr ''loop''), (''action'', JObj [])]) = Inl TypeError
   \<and> processDecisionTree demo_runtime (JObj [(''type'', JStr ''loop''), (''action'', JObj [])]) JUndefined start =
       (Returned, \<lparr>console = [ProcessingErrorLog TypeError], world = ()\<rparr>)"
  using missing_params_type_error [of "JObj [(''type'', JStr ''loop''), (''action'', JObj [])]" "''loop''"
      demo_runtime JUndefined start]
  by (simp add: emit_def start_def)

section \<open>Round trip\<close>

lemma roundtrip_list:
  assumes "\<And>a. a \<in> set actions \<Longrightarrow> \<exists>j. toJSON a = Inr j \<and> create j = Inr a"
  shows "\<exists>js. mapE toJSON actions = Inr js \<and> mapE create js = Inr actions"
  using assms
proof (induction actions)
  case Nil
  then show ?case by simp
next
  case (Cons a actions)
  obtain j where j: "toJSON a = Inr j" "create j = Inr a"
    using Cons.prems [of a] by auto
  obtain js where js: "mapE toJSON actions = Inr js" "mapE create js = Inr actions"
    using Cons by auto
  have "mapE toJSON (a # actions) = Inr (j # js) \<and> mapE create (j # js) = Inr (a # actions)"
    using j js by (simp add: bindE_Inr)
  then show ?case by blast
qed

lemma roundtrip:
  "builtin a \<Longrightarrow> \<exists>j. toJSON a = Inr j \<and> truthy j \<and> createAction rt j = Inr a"
proof (induction a)
  case (SendSmsAction phone)
  show ?case
    by (simp add: createAction_unfold factory_defs cong: bindE_weak_cong)
next
  case (SendEmailAction sender receiver)
  show ?case
    by (simp add: createAction_unfold factory_defs cong: bindE_weak_cong)
next
  case (ConditionAction expression trueAction falseAction)
  obtain t where t: "toJSON trueAction = Inr t" "createAction rt t = Inr trueAction"
    using ConditionAction by auto
  show ?case
  proof (cases falseAction)
    case None
    then show ?thesis
      using t by (simp add: createAction_unfold factory_defs cong: bindE_weak_cong)
  next
    case (Some a)
    then obtain f where f: "toJSON a = Inr f" "truthy f" "createAction rt f = Inr a"
      using ConditionAction by auto
    then show ?thesis
      using t Some by (simp add: createAction_unfold factory_defs cong: bindE_weak_cong)
  qed
next
  case (LoopAction iterations action)
  then obtain j where j: "toJSON action = Inr j" "createAction rt j = Inr action"
    by auto
  then show ?case
    by (simp add: createAction_unfold factory_defs cong: bindE_weak_cong)
next
  case (SequenceAction actions)
  have "\<exists>j. toJSON a = Inr j \<and> createAction rt j = Inr a" if "a \<in> set actions" for a
    using SequenceAction that by (auto simp: list_all_iff)
  then obtain js where js: "mapE toJSON actions = Inr js" "mapE (createAction rt) js = Inr actions"
    using roundtrip_list [of actions "createAction rt"] by blast
  then show ?case
    by (simp add: createAction_unfold factory_defs cong: bindE_weak_cong)
next
  case (OtherAction run tojson)
  then show ?case by simp
qed

text \<open>
  C1. For every action \<open>a\<close> built from the five classes, \<open>a.toJSON()\<close> returns a node
  \<open>j\<close>, \<open>createAction(j)\<close> returns an action, and the \<open>toJSON()\<close> of that action is
  \<open>j\<close> again; the action is in fact \<open>a\<close> itself, field by field.
\<close>

theorem createAction_toJSON_roundtrip:
  assumes "builtin a"
  shows "\<exists>j a'. toJSON a = Inr j \<and> createAction rt j = Inr a' \<and> toJSON a' = Inr j \<and> a' = a"
  using roundtrip [OF assms, of rt] by auto

theorem createAction_toJSON_roundtrip_witness:
  "builtin christmas_action
   \<and> toJSON christmas_action = Inr christmasDecisionTree
   \<and> createAction demo_runtime christmasDecisionTree = Inr christmas_action"
  using createAction_toJSON_roundtrip [of christmas_action demo_runtime]
  by (auto simp: christmas_action_def christmasDecisionTree_def bindE_Inr)

section \<open>Running a tree\<close>

text \<open>
  C4, as the code has it. The claim that an error is reported to the caller as a
  structured failure carrying a message fails: \<open>processDecisionTree\<close> is \<open>void\<close>. For
  the node \<open>{}\<close> the error goes to the console and the call returns, and what the caller
  gets is what it gets after the successful run of \<open>emailAndSmsTree\<close>.
\<close>

theorem processDecisionTree_structured_failure_counterexample:
  "processDecisionTree demo_runtime (JObj []) JUndefined start =
     (Returned, \<lparr>console = [ProcessingErrorLog (Error ''Invalid JSON: missing type property.'')], world = ()\<rparr>)
   \<and> fst (processDecisionTree demo_runtime (JObj []) JUndefined start)
     = fst (processDecisionTree demo_runtime emailAndSmsTree JUndefined start)"
  by (simp add: processDecisionTree_def emailAndSmsTree_def createAction_unfold factory_defs
      emit_def start_def cong: bindE_weak_cong)

text \<open>
  C4, amended. \<open>processDecisionTree\<close> never throws: it returns to its caller whatever
  happens, with no value. An error raised by \<open>createAction\<close> is caught and written to
  the error console, and nothing else is done; an error that \<open>execute\<close> throws is caught
  and written to the error console after the effects the execution had until then. For
  the node \<open>{}\<close> the error logged is the missing-type error, and no action is executed.
\<close>

theorem processDecisionTree_never_throws:
  "fst (processDecisionTree rt json context s) = Returned
   \<and> (createAction rt json = Inl err \<longrightarrow>
        processDecisionTree rt json context s = (Returned, emit (ProcessingErrorLog err) s))
   \<and> (createAction rt json = Inr a \<and> execute rt a context s = (Threw err, s') \<longrightarrow>
        processDecisionTree rt json context s = (Returned, emit (ProcessingErrorLog err) s'))
   \<and> processDecisionTree rt (JObj []) context s =
        (Returned, emit (ProcessingErrorLog (Error ''Invalid JSON: missing type property.'')) s)"
proof -
  have "createAction rt (JObj []) = Inl (Error ''Invalid JSON: missing type property.'')"
    by (simp add: createAction_unfold bindE_Inr)
  then show ?thesis
    by (auto simp: processDecisionTree_def split: sum.splits prod.splits completion.splits)
qed

theorem processDecisionTree_never_throws_witness:
  "processDecisionTree demo_runtime (JObj []) JUndefined start =
     (Returned, \<lparr>console = [ProcessingErrorLog (Error ''Invalid JSON: missing type property.'')], world = ()\<rparr>)
   \<and> processDecisionTree demo_runtime (JObj [(''type'', JStr ''bogus'')]) JUndefined start =
     (Returned, \<lparr>console = [ProcessingErrorLog (Error ''Unknown action type: bogus'')], world = ()\<rparr>)
   \<and> processDecisionTree demo_runtime (JObj [(''type'', JStr ''constructor'')]) JUndefined start =
     (Returned, \<lparr>console = [ProcessingErrorLog TypeError], world = ()\<rparr>)"
  using processDecisionTree_never_throws [of demo_runtime "JObj []" JUndefined start
      "Error ''Invalid JSON: missing type property.''" not_an_action start]
    processDecisionTree_never_throws [of demo_runtime "JObj [(''type'', JStr ''bogus'')]" JUndefined start
      "Error ''Unknown action type: bogus''" not_an_action start]
    processDecisionTree_never_throws [of demo_runtime "JObj [(''type'', JStr ''constructor'')]" JUndefined start
      TypeError not_an_action start]
  by (simp add: createAction_unfold factory_defs not_an_action_def emit_def start_def cong: bindE_weak_cong)

end
